theory Spec2Isabelle
  imports Complex_Main
begin

section \<open>Python values used by the order notification bridge\<close>

text \<open>
  A Python \<open>str\<close> is modelled as the list of its code points, over the code points
  that \<^typ>\<open>char\<close> holds (U+0000 to U+00FF). On that range \<open>str.isdigit\<close> accepts
  the ten ASCII digits and the superscript digits U+00B2, U+00B3 and U+00B9, and
  \<open>str.isspace\<close> accepts U+0009 to U+000D, U+001C to U+0020, U+0085 and U+00A0.
\<close>

definition isdigit :: "char \<Rightarrow> bool" where
  "isdigit ch =
     (let n = (of_char ch :: nat)
      in (48 \<le> n \<and> n \<le> 57) \<or> n = 178 \<or> n = 179 \<or> n = 185)"

definition isspace :: "char \<Rightarrow> bool" where
  "isspace ch =
     (let n = (of_char ch :: nat)
      in (9 \<le> n \<and> n \<le> 13) \<or> (28 \<le> n \<and> n \<le> 32) \<or> n = 133 \<or> n = 160)"

text \<open>\<open>s.strip()\<close>: whitespace removed at both ends.\<close>

definition strip :: "string \<Rightarrow> string" where
  "strip s = rev (dropWhile isspace (rev (dropWhile isspace s)))"

text \<open>\<open>s.startswith(p)\<close>.\<close>

definition startswith :: "string \<Rightarrow> string \<Rightarrow> bool" where
  "startswith s p = (take (length p) s = p)"

text \<open>The slice \<open>s[-9:]\<close>: the last nine characters, or all of \<open>s\<close> when it is shorter.\<close>

definition last9 :: "string \<Rightarrow> string" where
  "last9 s = drop (length s - 9) s"

text \<open>\<open>a or b or ""\<close> on values that are \<open>None\<close> or a \<open>str\<close>: the first truthy one.\<close>

definition truthy :: "string option \<Rightarrow> bool" where
  "truthy v = (case v of None \<Rightarrow> False | Some s \<Rightarrow> s \<noteq> [])"

definition or_else :: "string option \<Rightarrow> string \<Rightarrow> string" where
  "or_else v d = (case v of None \<Rightarrow> d | Some s \<Rightarrow> if s = [] then d else s)"

text \<open>\<open>str(v)\<close> of a value that is \<open>None\<close> or already rendered as text.\<close>

definition str_opt :: "string option \<Rightarrow> string" where
  "str_opt v = (case v of None \<Rightarrow> ''None'' | Some s \<Rightarrow> s)"

text \<open>\<open>str(n)\<close> of an integer: its decimal digits, with a sign when negative.\<close>

definition digit_char :: "nat \<Rightarrow> char" where
  "digit_char d = char_of (48 + d)"

function str_nat :: "nat \<Rightarrow> string" where
  "str_nat n = (if n < 10 then [digit_char n] else str_nat (n div 10) @ [digit_char (n mod 10)])"
  by pat_completeness auto
termination
  by (relation "measure id") auto

definition str_int :: "int \<Rightarrow> string" where
  "str_int i = (if i < 0 then CHR ''-'' # str_nat (nat (- i)) else str_nat (nat i))"

text \<open>
  An exception is its class name and the text \<open>str(e)\<close>. Only subclasses of
  \<open>Exception\<close> are modelled.
\<close>

datatype exn = Exn string string

fun exn_str :: "exn \<Rightarrow> string" where
  "exn_str (Exn cls msg) = msg"

section \<open>db.py\<close>

subsection \<open>Phone normalizer and matcher\<close>

definition normalize_phone :: "string option \<Rightarrow> string" where
  "normalize_phone phone =
     (case phone of
        None \<Rightarrow> []
      | Some p \<Rightarrow> if p = [] then [] else filter isdigit p)"

definition phone_matches :: "string option \<Rightarrow> string option \<Rightarrow> bool" where
  "phone_matches db_phone wa_phone =
     (let db_norm = normalize_phone db_phone;
          wa_norm = normalize_phone wa_phone
      in if db_norm = [] \<or> wa_norm = [] then False
         else if db_norm = wa_norm then True
         else last9 db_norm = last9 wa_norm)"

subsection \<open>Rows, orders and the database\<close>

text \<open>
  A row of the order query. A column that is SQL \<open>NULL\<close> is \<open>None\<close>; the timestamp
  and the monetary total are kept as the text \<open>str\<close> gives for them.
\<close>

record row =
  row_order_id :: int
  firstname :: "string option"
  lastname :: "string option"
  order_phone :: "string option"
  row_date_added :: "string option"
  row_total :: "string option"
  order_status_id :: "int option"
  status_name :: "string option"
  customer_phone :: "string option"

text \<open>
  The order dictionary. The keys \<open>order_id\<close> and \<open>customer_name\<close> are always
  present; a key read with \<open>.get\<close> is optional (\<open>None\<close> when missing).
\<close>

record order =
  order_id :: string
  customer_name :: string
  phone :: "string option"
  status :: "string option"
  status_id :: "int option"
  order_total :: "string option"
  date_added :: "string option"
  tracking_url :: "string option"

text \<open>
  The database as the functions see it: connecting, running the single-order query
  (\<open>execute\<close> and \<open>fetchone\<close>), running the automation query (\<open>execute\<close> and
  \<open>fetchall\<close>, by status, days back and limit) and closing, each of which may raise.
\<close>

record database =
  get_connection :: "exn option"
  fetchone :: "int \<Rightarrow> exn + row option"
  fetchall :: "int option \<Rightarrow> int option \<Rightarrow> int option \<Rightarrow> exn + row list"
  conn_close :: "exn option"

text \<open>The \<open>finally: conn.close()\<close> clause: a fault while closing replaces the outcome.\<close>

definition finally_close :: "database \<Rightarrow> exn + 'a \<Rightarrow> exn + 'a" where
  "finally_close db r = (case conn_close db of Some e \<Rightarrow> Inl e | None \<Rightarrow> r)"

definition connection_failed :: "exn \<Rightarrow> exn" where
  "connection_failed e = Exn ''Exception'' (''Database connection failed: '' @ exn_str e)"

definition stored_phone :: "row \<Rightarrow> string" where
  "stored_phone r =
     (if truthy (order_phone r) then or_else (order_phone r) []
      else or_else (customer_phone r) [])"

definition display_name :: "row \<Rightarrow> string" where
  "display_name r =
     (let customer_name = strip (or_else (firstname r) [] @ '' '' @ or_else (lastname r) [])
      in if customer_name = [] then ''Customer'' else customer_name)"

definition tracking_url_of :: "row \<Rightarrow> string" where
  "tracking_url_of r =
     ''https://www.ipshopy.com/index.php?route=account/order/info&order_id=''
       @ str_int (row_order_id r)"

definition order_data_of :: "row \<Rightarrow> order" where
  "order_data_of r =
     \<lparr> order_id = str_int (row_order_id r),
       customer_name = display_name r,
       phone = None,
       status = Some (or_else (status_name r) ''Unknown''),
       status_id = None,
       order_total = Some (str_opt (row_total r)),
       date_added = Some (str_opt (row_date_added r)),
       tracking_url = Some (tracking_url_of r) \<rparr>"


text \<open>The loop over the fetched rows: a row without a usable phone is left out.\<close>

fun build_orders :: "row list \<Rightarrow> order list" where
  "build_orders [] = []"
| "build_orders (r # rows) =
     (let phone = stored_phone r
      in if phone = [] \<or> length (strip phone) < 10 then build_orders rows
         else (order_data_of r) \<lparr> phone := Some phone, status_id := order_status_id r \<rparr>
                # build_orders rows)"

definition fetch_orders_for_automation ::
  "database \<Rightarrow> int option \<Rightarrow> int option \<Rightarrow> int option \<Rightarrow> exn + order list" where
  "fetch_orders_for_automation db limit order_status days_back =
     (case get_connection db of
        Some e \<Rightarrow> Inl (connection_failed e)
      | None \<Rightarrow>
          finally_close db
            (case fetchall db order_status days_back limit of
               Inl e \<Rightarrow> Inl e
             | Inr rows \<Rightarrow> Inr (build_orders rows)))"

section \<open>app.py\<close>

subsection \<open>Configuration and the outside world\<close>

text \<open>
  The module-level settings read from the process environment: the messaging
  credential (\<open>None\<close> when the variable is not set) and the default country code.
\<close>

record config =
  INTERAKT_API_KEY :: "string option"
  DEFAULT_COUNTRY_CODE :: string

text \<open>The request handed to \<open>requests.post\<close> and the response read back from it.\<close>

record payload =
  countryCode :: string
  phoneNumber :: string
  callbackData :: string
  template_name :: string
  languageCode :: string
  bodyValues :: "string list"
  buttonValues :: "(string \<times> string list) list"

record request =
  url :: string
  authorization :: string
  content_type :: string
  json_payload :: payload

text \<open>
  A response carries its status code, its body parsed as JSON when it is well formed
  (\<open>None\<close> when \<open>resp.json()\<close> raises) and its raw text.
\<close>

record http_response =
  status_code :: int
  json_body :: "string option"
  text_body :: string

datatype resp_data = Json string | RawText string

text \<open>
  A pacing delay is a Python number: a finite value, an infinity or not-a-number.
\<close>

datatype delay = Finite rat | PosInf | NegInf | NaN

text \<open>
  The effects of a run are a call of the messaging API or a pause. The remote side is a
  state of any type \<open>'w\<close> with a function that answers one request: it raises
  (a transport fault) or returns a response, and moves to a new state. \<open>max_sleep\<close> is
  the longest pause the runtime's clock accepts.
\<close>

datatype event = Post request | Sleep delay

record 'w remote =
  requests_post :: "'w \<Rightarrow> request \<Rightarrow> (exn + http_response) \<times> 'w"
  max_sleep :: rat

record 'w io =
  world :: 'w
  trace :: "event list"

definition http_post ::
  "'w remote \<Rightarrow> request \<Rightarrow> 'w io \<Rightarrow> (exn + http_response) \<times> 'w io" where
  "http_post rem rq s =
     (case requests_post rem (world s) rq of
        (r, w) \<Rightarrow> (r, s \<lparr> world := w, trace := trace s @ [Post rq] \<rparr>))"

text \<open>\<open>delay_seconds > 0\<close>.\<close>

fun gt_zero :: "delay \<Rightarrow> bool" where
  "gt_zero (Finite r) = (0 < r)"
| "gt_zero PosInf = True"
| "gt_zero NegInf = False"
| "gt_zero NaN = False"

text \<open>
  \<open>time.sleep(d)\<close>: it raises for a negative delay, for not-a-number and for a delay
  beyond the range of the clock, and pauses otherwise.
\<close>

fun sleep_fault :: "rat \<Rightarrow> delay \<Rightarrow> exn option" where
  "sleep_fault m (Finite r) =
     (if r < 0 then Some (Exn ''ValueError'' ''sleep length must be non-negative'')
      else if m < r then Some (Exn ''OverflowError'' ''timestamp out of range for platform time_t'')
      else None)"
| "sleep_fault m PosInf = Some (Exn ''OverflowError'' ''timestamp out of range for platform time_t'')"
| "sleep_fault m NegInf = Some (Exn ''OverflowError'' ''timestamp out of range for platform time_t'')"
| "sleep_fault m NaN = Some (Exn ''ValueError'' ''Invalid value NaN (not a number)'')"

definition time_sleep :: "'w remote \<Rightarrow> delay \<Rightarrow> 'w io \<Rightarrow> exn option \<times> 'w io" where
  "time_sleep rem d s =
     (case sleep_fault (max_sleep rem) d of
        Some e \<Rightarrow> (Some e, s)
      | None \<Rightarrow> (None, s \<lparr> trace := trace s @ [Sleep d] \<rparr>))"

subsection \<open>Country-code split\<close>

definition parse_phone_number :: "config \<Rightarrow> string \<Rightarrow> string \<times> string" where
  "parse_phone_number cfg phone0 =
     (let phone = strip phone0;
          phone_clean = filter (\<lambda>ch. isdigit ch \<or> ch = CHR ''+'') phone
      in if startswith phone_clean ''+'' then
           (let phone_clean = drop 1 phone_clean
            in if startswith phone_clean ''91'' \<and> 12 \<le> length phone_clean
                 then (''+91'', drop 2 phone_clean)
               else if startswith phone_clean ''1'' \<and> 11 \<le> length phone_clean
                 then (''+1'', drop 1 phone_clean)
               else if 12 \<le> length phone_clean \<and> startswith phone_clean ''91''
                 then (''+91'', drop 2 phone_clean)
               else (DEFAULT_COUNTRY_CODE cfg, phone_clean))
         else if startswith phone_clean ''91'' \<and> 12 \<le> length phone_clean
           then (''+91'', drop 2 phone_clean)
         else (DEFAULT_COUNTRY_CODE cfg, phone_clean))"

subsection \<open>Messaging gateway\<close>

definition INTERAKT_TEMPLATE_NAME :: string where
  "INTERAKT_TEMPLATE_NAME = ''insearch_of_order_id''"

definition INTERAKT_TEMPLATE_LANG :: string where
  "INTERAKT_TEMPLATE_LANG = ''en''"

definition build_request :: "config \<Rightarrow> string \<Rightarrow> order \<Rightarrow> string \<Rightarrow> request" where
  "build_request cfg key order_data phone_number =
     (case parse_phone_number cfg phone_number of
        (country_code, phone_num) \<Rightarrow>
          \<lparr> url = ''https://api.interakt.ai/v1/public/message/'',
            authorization = ''Basic '' @ key,
            content_type = ''application/json'',
            json_payload =
              \<lparr> countryCode = country_code,
                phoneNumber = phone_num,
                callbackData = ''order:'' @ order_id order_data,
                template_name = INTERAKT_TEMPLATE_NAME,
                languageCode = INTERAKT_TEMPLATE_LANG,
                bodyValues = [customer_name order_data],
                buttonValues = [(''0'', [order_id order_data])] \<rparr> \<rparr>)"

definition response_data :: "http_response \<Rightarrow> resp_data" where
  "response_data resp =
     (case json_body resp of Some j \<Rightarrow> Json j | None \<Rightarrow> RawText (text_body resp))"

definition interakt_send_order_status ::
  "config \<Rightarrow> 'w remote \<Rightarrow> order \<Rightarrow> string \<Rightarrow> 'w io \<Rightarrow> (exn + int \<times> resp_data) \<times> 'w io" where
  "interakt_send_order_status cfg rem order_data phone_number s =
     (if \<not> truthy (INTERAKT_API_KEY cfg)
        then (Inl (Exn ''RuntimeError'' ''INTERAKT_API_KEY not set in .env''), s)
      else
        (case http_post rem (build_request cfg (or_else (INTERAKT_API_KEY cfg) []) order_data phone_number) s of
           (Inl e, s1) \<Rightarrow> (Inl e, s1)
         | (Inr resp, s1) \<Rightarrow> (Inr (status_code resp, response_data resp), s1)))"

subsection \<open>Batch sender\<close>

text \<open>\<open>d.get(key, default)\<close> on an optional key.\<close>

definition get_or :: "'a option \<Rightarrow> 'a \<Rightarrow> 'a" where
  "get_or v d = (case v of None \<Rightarrow> d | Some x \<Rightarrow> x)"

text \<open>
  The outcome records appended to \<open>details\<close>, one constructor per shape of dictionary,
  and the value of their \<open>status\<close> and \<open>order_id\<close> keys.
\<close>

datatype detail =
    Skipped string string
  | Success string string string int
  | Failed string string string int resp_data
  | Error string string string string

fun status_tag :: "detail \<Rightarrow> string" where
  "status_tag (Skipped oid reason) = ''skipped''"
| "status_tag (Success oid ph name code) = ''success''"
| "status_tag (Failed oid ph name code err) = ''failed''"
| "status_tag (Error oid ph name err) = ''error''"

fun detail_order_id :: "detail \<Rightarrow> string" where
  "detail_order_id (Skipped oid reason) = oid"
| "detail_order_id (Success oid ph name code) = oid"
| "detail_order_id (Failed oid ph name code err) = oid"
| "detail_order_id (Error oid ph name err) = oid"

record results =
  n_total :: nat
  n_success :: nat
  n_failed :: nat
  n_skipped :: nat
  details :: "detail list"

definition initial_results :: "order list \<Rightarrow> results" where
  "initial_results orders =
     \<lparr> n_total = length orders, n_success = 0, n_failed = 0, n_skipped = 0, details = [] \<rparr>"

definition no_phone :: "string \<Rightarrow> bool" where
  "no_phone p = (p = [] \<or> length (strip p) < 10)"

text \<open>
  The body of the \<open>try\<close> block for one order. It returns the exception that left the
  block, if any, with the results and effects as they were when it was raised.
\<close>

definition try_send ::
  "config \<Rightarrow> 'w remote \<Rightarrow> delay \<Rightarrow> order \<Rightarrow> string \<Rightarrow> results \<times> 'w io
     \<Rightarrow> exn option \<times> results \<times> 'w io" where
  "try_send cfg rem delay order ph st =
     (case st of (res, s) \<Rightarrow>
       (let order_data =
              \<lparr> order_id = order_id order,
                customer_name = customer_name order,
                phone = None,
                status = Some (get_or (status order) ''Unknown''),
                status_id = None,
                order_total = Some (get_or (order_total order) []),
                date_added = Some (get_or (date_added order) []),
                tracking_url = Some (get_or (tracking_url order) []) \<rparr>
        in case interakt_send_order_status cfg rem order_data ph s of
             (Inl e, s1) \<Rightarrow> (Some e, res, s1)
           | (Inr (code, interakt_resp), s1) \<Rightarrow>
               (let res1 =
                      (if code = 200 \<or> code = 201
                       then res \<lparr> n_success := n_success res + 1,
                                  details := details res
                                    @ [Success (order_id order) ph (customer_name order) code] \<rparr>
                       else res \<lparr> n_failed := n_failed res + 1,
                                  details := details res
                                    @ [Failed (order_id order) ph (customer_name order) code
                                         interakt_resp] \<rparr>)
                in if gt_zero delay
                   then (case time_sleep rem delay s1 of (err, s2) \<Rightarrow> (err, res1, s2))
                   else (None, res1, s1))))"

text \<open>One iteration of the loop: the skip test, the \<open>try\<close> block and its handler.\<close>

definition process_order ::
  "config \<Rightarrow> 'w remote \<Rightarrow> delay \<Rightarrow> order \<Rightarrow> results \<times> 'w io \<Rightarrow> results \<times> 'w io" where
  "process_order cfg rem delay order st =
     (case st of (res, s) \<Rightarrow>
       (let ph = get_or (phone order) []
        in if no_phone ph
           then (res \<lparr> n_skipped := n_skipped res + 1,
                       details := details res @ [Skipped (order_id order) ''No phone number''] \<rparr>, s)
           else (case try_send cfg rem delay order ph (res, s) of
                   (None, res1, s1) \<Rightarrow> (res1, s1)
                 | (Some e, res1, s1) \<Rightarrow>
                     (res1 \<lparr> n_failed := n_failed res1 + 1,
                             details := details res1
                               @ [Error (order_id order) ph (customer_name order) (exn_str e)] \<rparr>,
                      s1))))"

fun for_orders ::
  "config \<Rightarrow> 'w remote \<Rightarrow> delay \<Rightarrow> order list \<Rightarrow> results \<times> 'w io \<Rightarrow> results \<times> 'w io" where
  "for_orders cfg rem delay [] st = st"
| "for_orders cfg rem delay (order # orders) st =
     for_orders cfg rem delay orders (process_order cfg rem delay order st)"

definition send_batch_whatsapp_messages ::
  "config \<Rightarrow> 'w remote \<Rightarrow> order list \<Rightarrow> delay \<Rightarrow> 'w io \<Rightarrow> results \<times> 'w io" where
  "send_batch_whatsapp_messages cfg rem orders delay s =
     for_orders cfg rem delay orders (initial_results orders, s)"

subsection \<open>Automation endpoint\<close>

record filters =
  limit :: "int option"
  filter_status_id :: "int option"
  days_back :: "int option"

record params =
  query :: filters
  delay_seconds :: delay
  dry_run :: bool

text \<open>The JSON bodies the endpoint answers with, and their \<open>success\<close> key.\<close>

datatype body =
    NoOrders filters
  | DryRun "order list" filters
  | Summary results filters
  | Failure string

fun success_flag :: "body \<Rightarrow> bool" where
  "success_flag (NoOrders f) = False"
| "success_flag (DryRun orders f) = True"
| "success_flag (Summary res f) = True"
| "success_flag (Failure err) = False"

definition automate_send_messages ::
  "config \<Rightarrow> 'w remote \<Rightarrow> database \<Rightarrow> params \<Rightarrow> 'w io \<Rightarrow> (body \<times> nat) \<times> 'w io" where
  "automate_send_messages cfg rem db p s =
     (case fetch_orders_for_automation db (limit (query p)) (filter_status_id (query p))
             (days_back (query p)) of
        Inl e \<Rightarrow> ((Failure (exn_str e), 500), s)
      | Inr orders \<Rightarrow>
          if orders = [] then ((NoOrders (query p), 404), s)
          else if dry_run p then ((DryRun orders (query p), 200), s)
          else (case send_batch_whatsapp_messages cfg rem orders (delay_seconds p) s of
                  (res, s1) \<Rightarrow> ((Summary res (query p), 200), s1)))"

section \<open>Notions used in the statements\<close>

text \<open>The ASCII characters, and among them the decimal digits \<open>0\<close> to \<open>9\<close>.\<close>

definition ascii :: "char \<Rightarrow> bool" where
  "ascii ch = ((of_char ch :: nat) < 128)"

definition decimal_digit :: "char \<Rightarrow> bool" where
  "decimal_digit ch = (48 \<le> (of_char ch :: nat) \<and> (of_char ch :: nat) \<le> 57)"

text \<open>Sample data: a row, a database that holds given rows, and one that cannot be reached.\<close>

definition sample_row :: row where
  "sample_row =
     \<lparr> row_order_id = 178541, firstname = Some ''Jane'', lastname = Some ''Doe'',
       order_phone = Some [], row_date_added = Some ''2024-01-05 10:00:00'',
       row_total = Some ''499.0000'', order_status_id = Some 1, status_name = None,
       customer_phone = Some ''07588348865'' \<rparr>"

definition healthy_db :: "row list \<Rightarrow> database" where
  "healthy_db rows =
     \<lparr> get_connection = None,
       fetchone = (\<lambda>oid. Inr (find (\<lambda>r. row_order_id r = oid) rows)),
       fetchall = (\<lambda>st days lim. Inr rows),
       conn_close = None \<rparr>"



text \<open>
  Sample surroundings: a configuration with a credential, a remote side that answers
  every request with one status and body, one whose calls raise, and an idle start.
\<close>

definition sample_config :: config where
  "sample_config = \<lparr> INTERAKT_API_KEY = Some ''c2VjcmV0'', DEFAULT_COUNTRY_CODE = ''+91'' \<rparr>"

definition answering :: "int \<Rightarrow> string \<Rightarrow> unit remote" where
  "answering code reply =
     \<lparr> requests_post =
         (\<lambda>w rq. (Inr \<lparr> status_code = code, json_body = Some reply, text_body = reply \<rparr>, w)),
       max_sleep = 9223372036 \<rparr>"

definition timing_out :: "unit remote" where
  "timing_out =
     \<lparr> requests_post = (\<lambda>w rq. (Inl (Exn ''ConnectTimeout'' ''connection timed out''), w)),
       max_sleep = 9223372036 \<rparr>"

definition idle :: "unit io" where
  "idle = \<lparr> world = (), trace = [] \<rparr>"

text \<open>A row whose only phone is too short to be used.\<close>

definition short_phone_row :: row where
  "short_phone_row = sample_row \<lparr> row_order_id := 178542, customer_phone := Some ''123'' \<rparr>"

text \<open>
  The gateway call the batch sender makes for an order: the order data it builds, sent to
  the order's phone.
\<close>

definition batch_order_data :: "order \<Rightarrow> order" where
  "batch_order_data order =
     \<lparr> order_id = order_id order,
       customer_name = customer_name order,
       phone = None,
       status = Some (get_or (status order) ''Unknown''),
       status_id = None,
       order_total = Some (get_or (order_total order) []),
       date_added = Some (get_or (date_added order) []),
       tracking_url = Some (get_or (tracking_url order) []) \<rparr>"

definition gateway_call ::
  "config \<Rightarrow> 'w remote \<Rightarrow> order \<Rightarrow> 'w io \<Rightarrow> (exn + int \<times> resp_data) \<times> 'w io" where
  "gateway_call cfg rem order s =
     interakt_send_order_status cfg rem (batch_order_data order) (get_or (phone order) []) s"

text \<open>The record written when the gateway call for an order returned a status.\<close>

definition answered_record :: "order \<Rightarrow> int \<Rightarrow> resp_data \<Rightarrow> detail" where
  "answered_record order code resp =
     (if code = 200 \<or> code = 201
      then Success (order_id order) (get_or (phone order) []) (customer_name order) code
      else Failed (order_id order) (get_or (phone order) []) (customer_name order) code resp)"

definition error_record :: "order \<Rightarrow> exn \<Rightarrow> detail" where
  "error_record order e =
     Error (order_id order) (get_or (phone order) []) (customer_name order) (exn_str e)"

text \<open>A delay the pause accepts: \<open>time.sleep\<close> does not raise for it.\<close>

definition pause_accepted :: "'w remote \<Rightarrow> delay \<Rightarrow> bool" where
  "pause_accepted rem d = (sleep_fault (max_sleep rem) d = None)"

fun is_pause :: "event \<Rightarrow> bool" where
  "is_pause (Sleep d) = True"
| "is_pause (Post rq) = False"

fun answered :: "detail \<Rightarrow> bool" where
  "answered (Success oid ph name code) = True"
| "answered (Failed oid ph name code err) = True"
| "answered (Skipped oid reason) = False"
| "answered (Error oid ph name err) = False"

definition sample_order :: order where
  "sample_order =
     \<lparr> order_id = ''178541'', customer_name = ''Jane Doe'', phone = Some ''+917588348865'',
       status = Some ''Processing'', status_id = Some 2, order_total = Some ''499.0000'',
       date_added = Some ''2024-01-05 10:00:00'', tracking_url = None \<rparr>"

text \<open>The exception raised when the credential is missing.\<close>

definition missing_key :: exn where
  "missing_key = Exn ''RuntimeError'' ''INTERAKT_API_KEY not set in .env''"

text \<open>The status a batch gives each order when every gateway call raises.\<close>

definition skipped_or_error :: "order \<Rightarrow> string" where
  "skipped_or_error order = (if no_phone (get_or (phone order) []) then ''skipped'' else ''error'')"

section \<open>Phone normalizer\<close>

lemma decimal_digit_chars: "ch \<in> set ''0123456789'' \<Longrightarrow> decimal_digit ch"
  by (auto simp: decimal_digit_def)

lemma isdigit_ascii: "ascii ch \<Longrightarrow> isdigit ch \<Longrightarrow> decimal_digit ch"
  by (auto simp: ascii_def isdigit_def decimal_digit_def Let_def)

lemma normalize_phone_digits: "ch \<in> set (normalize_phone x) \<Longrightarrow> isdigit ch"
  by (cases x) (auto simp: normalize_phone_def split: if_splits)

lemma normalize_phone_subset: "ch \<in> set (normalize_phone (Some s)) \<Longrightarrow> ch \<in> set s"
  by (auto simp: normalize_phone_def split: if_splits)

text \<open>
  Claim C10, as amended. The phone normalizer is total: \<open>None\<close> and the empty string
  give the empty string, and every character of the result is one that \<open>str.isdigit\<close>
  accepts; on an input of ASCII characters these are the decimal digits \<open>0\<close> to \<open>9\<close>.
  It is idempotent: normalizing its own output changes nothing.
\<close>

theorem normalize_phone_total_idempotent:
  "normalize_phone None = [] \<and> normalize_phone (Some []) = []
   \<and> (\<forall>ch \<in> set (normalize_phone x). isdigit ch)
   \<and> ((\<forall>ch \<in> set s. ascii ch) \<longrightarrow> (\<forall>ch \<in> set (normalize_phone (Some s)). decimal_digit ch))
   \<and> normalize_phone (Some (normalize_phone x)) = normalize_phone x"
proof -
  have idem: "normalize_phone (Some (normalize_phone x)) = normalize_phone x"
    by (cases x) (simp_all add: normalize_phone_def)
  have asc: "(\<forall>ch \<in> set s. ascii ch) \<longrightarrow> (\<forall>ch \<in> set (normalize_phone (Some s)). decimal_digit ch)"
    using isdigit_ascii normalize_phone_digits normalize_phone_subset by blast
  show ?thesis using idem asc normalize_phone_digits by (simp add: normalize_phone_def)
qed

text \<open>
  The result is not always made of decimal digits: a superscript two (U+00B2) passes
  the digit test and is kept.
\<close>

theorem normalize_phone_superscript:
  "normalize_phone (Some [CHR ''7'', CHR 0xB2]) = [CHR ''7'', CHR 0xB2] \<and> \<not> decimal_digit (CHR 0xB2)"
  by (simp add: normalize_phone_def isdigit_def decimal_digit_def)

theorem normalize_phone_witness:
  "list_all ascii ''+91 75883-48865''
   \<and> normalize_phone (Some ''+91 75883-48865'') = ''917588348865''
   \<and> list_all decimal_digit (normalize_phone (Some ''+91 75883-48865''))
   \<and> normalize_phone (Some (normalize_phone (Some ''+91 75883-48865'')))
       = normalize_phone (Some ''+91 75883-48865'')"
proof -
  have n: "normalize_phone (Some ''+91 75883-48865'') = ''917588348865''"
    by (simp add: normalize_phone_def isdigit_def)
  have a: "\<forall>ch \<in> set ''+91 75883-48865''. ascii ch"
    by (simp add: ascii_def)
  from normalize_phone_total_idempotent [of "Some ''+91 75883-48865''" "''+91 75883-48865''"] a
  have d: "\<forall>ch \<in> set (normalize_phone (Some ''+91 75883-48865'')). decimal_digit ch"
    and i: "normalize_phone (Some (normalize_phone (Some ''+91 75883-48865'')))
       = normalize_phone (Some ''+91 75883-48865'')"
    by blast+
  from a d i n show ?thesis by (simp only: list_all_iff simp_thms)
qed

section \<open>Phone matcher\<close>

lemma last9_short: "length s < 9 \<Longrightarrow> last9 s = s"
  by (simp add: last9_def)

lemma last9_length: "length (last9 s) = min 9 (length s)"
  by (simp add: last9_def)

lemma last9_append: "length t = 9 \<Longrightarrow> last9 (p @ t) = t"
  by (simp add: last9_def)

lemma last9_split: "9 \<le> length s \<Longrightarrow> s = take (length s - 9) s @ last9 s \<and> length (last9 s) = 9"
  by (simp add: last9_def)

lemma last9_eq_iff:
  assumes "a \<noteq> b"
  shows "(last9 a = last9 b) = (\<exists>p q t. length t = 9 \<and> a = p @ t \<and> b = q @ t)"
proof
  assume eq: "last9 a = last9 b"
  have la: "9 \<le> length a"
  proof (rule ccontr)
    assume "\<not> 9 \<le> length a"
    then have sa: "length a < 9" by simp
    then have "last9 b = a" using eq last9_short by simp
    then have "min 9 (length b) < 9" using last9_length [of b] sa by simp
    then have "length b < 9" by simp
    then have "last9 b = b" by (rule last9_short)
    with \<open>last9 b = a\<close> assms show False by simp
  qed
  have lb: "9 \<le> length b"
  proof (rule ccontr)
    assume "\<not> 9 \<le> length b"
    then have sb: "length b < 9" by simp
    then have "last9 a = b" using eq last9_short by simp
    then have "min 9 (length a) < 9" using last9_length [of a] sb by simp
    then have "length a < 9" by simp
    with la show False by simp
  qed
  from last9_split [OF la] last9_split [OF lb] eq
  have "length (last9 a) = 9 \<and> a = take (length a - 9) a @ last9 a
        \<and> b = take (length b - 9) b @ last9 a" by simp
  then show "\<exists>p q t. length t = 9 \<and> a = p @ t \<and> b = q @ t" by blast
next
  assume "\<exists>p q t. length t = 9 \<and> a = p @ t \<and> b = q @ t"
  then obtain p q t where "length t = 9" "a = p @ t" "b = q @ t" by blast
  then show "last9 a = last9 b" by (simp add: last9_append)
qed

lemma phone_matches_empty:
  "normalize_phone a = [] \<or> normalize_phone b = [] \<Longrightarrow> \<not> phone_matches a b"
  by (auto simp: phone_matches_def Let_def)

lemma phone_matches_differ:
  "normalize_phone a \<noteq> [] \<Longrightarrow> normalize_phone b \<noteq> [] \<Longrightarrow> normalize_phone a \<noteq> normalize_phone b
   \<Longrightarrow> phone_matches a b = (last9 (normalize_phone a) = last9 (normalize_phone b))"
  by (simp add: phone_matches_def Let_def)

text \<open>
  Claim C2. If either canonical form is empty the matcher returns false. When both are
  nonempty and differ, it returns true exactly when the two forms end in the same nine
  characters; so a form with fewer than nine digits that differs from the other never
  matches.
\<close>

theorem phone_matches_contract:
  "(normalize_phone a = [] \<or> normalize_phone b = [] \<longrightarrow> \<not> phone_matches a b)
   \<and> (normalize_phone a \<noteq> [] \<and> normalize_phone b \<noteq> [] \<and> normalize_phone a \<noteq> normalize_phone b
        \<longrightarrow> phone_matches a b
              = (\<exists>p q t. length t = 9 \<and> normalize_phone a = p @ t \<and> normalize_phone b = q @ t))
   \<and> ((length (normalize_phone a) < 9 \<or> length (normalize_phone b) < 9)
         \<and> normalize_phone a \<noteq> normalize_phone b \<longrightarrow> \<not> phone_matches a b)"
proof -
  have one: "normalize_phone a = [] \<or> normalize_phone b = [] \<longrightarrow> \<not> phone_matches a b"
    using phone_matches_empty by blast
  have two: "normalize_phone a \<noteq> [] \<and> normalize_phone b \<noteq> [] \<and> normalize_phone a \<noteq> normalize_phone b
        \<longrightarrow> phone_matches a b
              = (\<exists>p q t. length t = 9 \<and> normalize_phone a = p @ t \<and> normalize_phone b = q @ t)"
    using phone_matches_differ [of a b] last9_eq_iff [of "normalize_phone a" "normalize_phone b"]
    by simp
  have three: "(length (normalize_phone a) < 9 \<or> length (normalize_phone b) < 9)
         \<and> normalize_phone a \<noteq> normalize_phone b \<longrightarrow> \<not> phone_matches a b"
  proof (intro impI)
    assume h: "(length (normalize_phone a) < 9 \<or> length (normalize_phone b) < 9)
         \<and> normalize_phone a \<noteq> normalize_phone b"
    show "\<not> phone_matches a b"
    proof (cases "normalize_phone a = [] \<or> normalize_phone b = []")
      case True
      then show ?thesis by (rule phone_matches_empty)
    next
      case False
      with h two have "phone_matches a b
          = (\<exists>p q t. length t = 9 \<and> normalize_phone a = p @ t \<and> normalize_phone b = q @ t)"
        by simp
      moreover have "\<not> (\<exists>p q t. length t = 9 \<and> normalize_phone a = p @ t \<and> normalize_phone b = q @ t)"
        using h by auto
      ultimately show ?thesis by simp
    qed
  qed
  from one two three show ?thesis by blast
qed

theorem phone_matches_contract_witness:
  "normalize_phone (Some ''+917588348865'') \<noteq> []
   \<and> normalize_phone (Some ''07588348865'') \<noteq> []
   \<and> normalize_phone (Some ''+917588348865'') \<noteq> normalize_phone (Some ''07588348865'')
   \<and> phone_matches (Some ''+917588348865'') (Some ''07588348865'')
   \<and> normalize_phone None = [] \<and> \<not> phone_matches None (Some ''07588348865'')
   \<and> length (normalize_phone (Some ''12345'')) < 9
   \<and> normalize_phone (Some ''12345'') \<noteq> normalize_phone (Some ''0012345'')
   \<and> \<not> phone_matches (Some ''12345'') (Some ''0012345'')"
proof -
  have na: "normalize_phone (Some ''+917588348865'') = ''917588348865''"
    by (simp add: normalize_phone_def isdigit_def)
  have nb: "normalize_phone (Some ''07588348865'') = ''07588348865''"
    by (simp add: normalize_phone_def isdigit_def)
  have nc: "normalize_phone (Some ''12345'') = ''12345''"
    by (simp add: normalize_phone_def isdigit_def)
  have nd: "normalize_phone (Some ''0012345'') = ''0012345''"
    by (simp add: normalize_phone_def isdigit_def)
  have ne: "normalize_phone None = []"
    by (simp add: normalize_phone_def)
  have ex: "\<exists>p q t. length t = 9 \<and> ''917588348865'' = p @ t \<and> ''07588348865'' = q @ t"
  proof (intro exI conjI)
    show "length ''588348865'' = 9" by simp
    show "''917588348865'' = ''917'' @ ''588348865''" by simp
    show "''07588348865'' = ''07'' @ ''588348865''" by simp
  qed
  have m1: "phone_matches (Some ''+917588348865'') (Some ''07588348865'')"
    using phone_matches_contract [of "Some ''+917588348865''" "Some ''07588348865''"] na nb ex
    by simp
  have m2: "\<not> phone_matches None (Some ''07588348865'')"
    using phone_matches_contract [of None "Some ''07588348865''"] ne by simp
  have h3: "(length (normalize_phone (Some ''12345'')) < 9 \<or> length (normalize_phone (Some ''0012345'')) < 9)
      \<and> normalize_phone (Some ''12345'') \<noteq> normalize_phone (Some ''0012345'')"
    using nc nd by simp
  have m3: "\<not> phone_matches (Some ''12345'') (Some ''0012345'')"
    using phone_matches_contract [of "Some ''12345''" "Some ''0012345''"] h3 by blast
  from na nb nc nd ne m1 m2 m3 show ?thesis by simp
qed

text \<open>
  Two phones without any digit have equal canonical forms (both empty), and the matcher
  returns false for them.
\<close>

theorem phone_matches_both_empty:
  "normalize_phone (Some ''n/a'') = normalize_phone (Some ''--'') \<and> \<not> phone_matches (Some ''n/a'') (Some ''--'')"
  by (simp add: phone_matches_def normalize_phone_def isdigit_def)

text \<open>
  Claim C3, as amended. When the canonical forms of the two inputs are equal and not
  empty, the matcher returns true.
\<close>

theorem phone_matches_equal_forms:
  "normalize_phone a = normalize_phone b \<Longrightarrow> normalize_phone a \<noteq> [] \<Longrightarrow> phone_matches a b"
  by (simp add: phone_matches_def Let_def)

theorem phone_matches_equal_forms_witness:
  "normalize_phone (Some ''+91 75883-48865'') = normalize_phone (Some ''917588348865'')
   \<and> normalize_phone (Some ''+91 75883-48865'') \<noteq> []
   \<and> phone_matches (Some ''+91 75883-48865'') (Some ''917588348865'')"
proof -
  have e: "normalize_phone (Some ''+91 75883-48865'') = normalize_phone (Some ''917588348865'')"
    by (simp add: normalize_phone_def isdigit_def)
  have n: "normalize_phone (Some ''+91 75883-48865'') \<noteq> []"
    by (simp add: normalize_phone_def isdigit_def)
  from phone_matches_equal_forms [OF e n] e n show ?thesis by simp
qed

section \<open>Order authorizer\<close>






section \<open>Country-code split\<close>




section \<open>Automation endpoint\<close>

text \<open>
  Claim C9. When the database fetch returns an empty order list, the automation endpoint
  answers 404 with the success flag false, whatever \<open>dry_run\<close> is, and has no effect on
  the outside: the batch sender is not run and neither a summary nor an order list is
  returned.
\<close>

theorem automate_send_messages_no_orders:
  "fetch_orders_for_automation db (limit (query p)) (filter_status_id (query p))
       (days_back (query p)) = Inr []
   \<Longrightarrow> automate_send_messages cfg rem db p s = ((NoOrders (query p), 404), s)
       \<and> \<not> success_flag (fst (fst (automate_send_messages cfg rem db p s)))"
  by (simp add: automate_send_messages_def)

theorem automate_send_messages_no_orders_witness:
  "fetch_orders_for_automation (healthy_db [short_phone_row]) (Some 10) None (Some 7) = Inr []
   \<and> automate_send_messages sample_config (answering 200 ''{}'') (healthy_db [short_phone_row])
        \<lparr> query = \<lparr> limit = Some 10, filter_status_id = None, days_back = Some 7 \<rparr>,
          delay_seconds = Finite 1, dry_run = True \<rparr> idle
       = ((NoOrders \<lparr> limit = Some 10, filter_status_id = None, days_back = Some 7 \<rparr>, 404), idle)"
proof -
  let ?p = "\<lparr> query = \<lparr> limit = Some 10, filter_status_id = None, days_back = Some 7 \<rparr>,
          delay_seconds = Finite 1, dry_run = True \<rparr>"
  have f: "fetch_orders_for_automation (healthy_db [short_phone_row]) (Some 10) None (Some 7) = Inr []"
    by (simp add: fetch_orders_for_automation_def finally_close_def healthy_db_def
        short_phone_row_def sample_row_def stored_phone_def truthy_def or_else_def
        strip_def isspace_def)
  then have f': "fetch_orders_for_automation (healthy_db [short_phone_row]) (limit (query ?p))
      (filter_status_id (query ?p)) (days_back (query ?p)) = Inr []"
    by simp
  from automate_send_messages_no_orders [OF f', of sample_config "answering 200 ''{}''" idle] f
  show ?thesis by simp
qed

section \<open>Batch sender: outcome of one order\<close>

lemma process_order_skip:
  "no_phone (get_or (phone order) [])
   \<Longrightarrow> process_order cfg rem d order (res, s)
       = (res \<lparr> n_skipped := n_skipped res + 1,
                 details := details res @ [Skipped (order_id order) ''No phone number''] \<rparr>, s)"
  by (simp add: process_order_def Let_def)

lemma process_order_raised:
  "\<not> no_phone (get_or (phone order) []) \<Longrightarrow> gateway_call cfg rem order s = (Inl e, s1)
   \<Longrightarrow> process_order cfg rem d order (res, s)
       = (res \<lparr> n_failed := n_failed res + 1,
                 details := details res @ [error_record order e] \<rparr>, s1)"
  by (simp add: process_order_def try_send_def gateway_call_def batch_order_data_def
      error_record_def Let_def)

lemma process_order_returned:
  "\<not> no_phone (get_or (phone order) []) \<Longrightarrow> gateway_call cfg rem order s = (Inr (code, resp), s1)
   \<Longrightarrow> process_order cfg rem d order (res, s)
       = (let res1 = (if code = 200 \<or> code = 201
                      then res \<lparr> n_success := n_success res + 1,
                                 details := details res @ [answered_record order code resp] \<rparr>
                      else res \<lparr> n_failed := n_failed res + 1,
                                 details := details res @ [answered_record order code resp] \<rparr>)
          in if gt_zero d
             then (case sleep_fault (max_sleep rem) d of
                     None \<Rightarrow> (res1, s1 \<lparr> trace := trace s1 @ [Sleep d] \<rparr>)
                   | Some e \<Rightarrow>
                       (res1 \<lparr> n_failed := n_failed res1 + 1,
                               details := details res1 @ [error_record order e] \<rparr>, s1))
             else (res1, s1))"
  by (simp add: process_order_def try_send_def gateway_call_def batch_order_data_def
      error_record_def answered_record_def time_sleep_def Let_def split: option.splits)


lemma for_orders_snoc:
  "for_orders cfg rem d (orders @ [order]) st
     = process_order cfg rem d order (for_orders cfg rem d orders st)"
  by (induction orders arbitrary: st) simp_all

lemma gateway_call_cases:
  obtains e s1 where "gateway_call cfg rem order s = (Inl e, s1)"
  | code resp s1 where "gateway_call cfg rem order s = (Inr (code, resp), s1)"
proof (cases "gateway_call cfg rem order s")
  case (Pair r s1)
  then show ?thesis
    using that by (cases r) auto
qed

text \<open>
  With a delay that is not positive or that the pause accepts, an iteration of the loop
  does exactly this: an order without a usable phone is recorded as skipped and the
  outside is left as it was; otherwise the gateway is called, a status of 200 or 201 is
  recorded as one success, any other status as one failure with the response attached,
  each followed by the pause when the delay is positive, and an exception is recorded as
  one error counted under failed. The last order of a batch is processed from the state
  the orders before it left, whatever their outcomes.
\<close>

lemma process_order_exact:
  assumes "\<not> gt_zero d \<or> pause_accepted rem d"
  shows "(no_phone (get_or (phone order) [])
      \<longrightarrow> process_order cfg rem d order (res, s)
          = (res \<lparr> n_skipped := n_skipped res + 1,
                    details := details res @ [Skipped (order_id order) ''No phone number''] \<rparr>, s))
   \<and> (\<not> no_phone (get_or (phone order) [])
        \<and> gateway_call cfg rem order s = (Inr (code, resp), s1) \<and> (code = 200 \<or> code = 201)
      \<longrightarrow> process_order cfg rem d order (res, s)
          = (res \<lparr> n_success := n_success res + 1,
                    details := details res
                      @ [Success (order_id order) (get_or (phone order) []) (customer_name order)
                           code] \<rparr>,
             if gt_zero d then s1 \<lparr> trace := trace s1 @ [Sleep d] \<rparr> else s1))
   \<and> (\<not> no_phone (get_or (phone order) [])
        \<and> gateway_call cfg rem order s = (Inr (code, resp), s1) \<and> code \<noteq> 200 \<and> code \<noteq> 201
      \<longrightarrow> process_order cfg rem d order (res, s)
          = (res \<lparr> n_failed := n_failed res + 1,
                    details := details res
                      @ [Failed (order_id order) (get_or (phone order) []) (customer_name order)
                           code resp] \<rparr>,
             if gt_zero d then s1 \<lparr> trace := trace s1 @ [Sleep d] \<rparr> else s1))
   \<and> (\<not> no_phone (get_or (phone order) []) \<and> gateway_call cfg rem order s = (Inl e, s1)
      \<longrightarrow> process_order cfg rem d order (res, s)
          = (res \<lparr> n_failed := n_failed res + 1,
                    details := details res
                      @ [Error (order_id order) (get_or (phone order) []) (customer_name order)
                           (exn_str e)] \<rparr>, s1))"
  using assms
  by (auto simp: process_order_skip process_order_raised process_order_returned
      answered_record_def error_record_def pause_accepted_def Let_def)

lemma send_batch_last_order:
  "send_batch_whatsapp_messages cfg rem (orders @ [order]) d s
     = process_order cfg rem d order
         (for_orders cfg rem d orders (initial_results (orders @ [order]), s))"
  by (simp add: send_batch_whatsapp_messages_def for_orders_snoc)

text \<open>
  Claim C5, at an input where it fails. An order with a usable phone, a delay beyond the
  range of the clock, and a gateway that answers 200: the success is recorded, then the
  pause raises inside the \<open>try\<close> block and the handler records the same order as an
  error and counts it under failed. With a gateway that answers 500 the order is counted
  under failed twice and gets a failed and an error record.
\<close>

theorem process_order_answered_also_failed:
  "fst (process_order sample_config (answering 200 ''{}'') (Finite 10000000000) sample_order
          (initial_results [sample_order], idle))
     = \<lparr> n_total = 1, n_success = 1, n_failed = 1, n_skipped = 0,
         details =
           [Success ''178541'' ''+917588348865'' ''Jane Doe'' 200,
            Error ''178541'' ''+917588348865'' ''Jane Doe''
              ''timestamp out of range for platform time_t''] \<rparr>
   \<and> fst (process_order sample_config (answering 500 ''rejected'') PosInf sample_order
          (initial_results [sample_order], idle))
     = \<lparr> n_total = 1, n_success = 0, n_failed = 2, n_skipped = 0,
         details =
           [Failed ''178541'' ''+917588348865'' ''Jane Doe'' 500 (Json ''rejected''),
            Error ''178541'' ''+917588348865'' ''Jane Doe''
              ''timestamp out of range for platform time_t''] \<rparr>"
  by (simp add: initial_results_def process_order_def
      try_send_def interakt_send_order_status_def http_post_def time_sleep_def
      sample_config_def sample_order_def answering_def idle_def no_phone_def get_or_def
      strip_def isspace_def truthy_def response_data_def Let_def)

section \<open>Batch sender: counts and details\<close>

lemma process_order_one_record:
  assumes "\<not> gt_zero d \<or> pause_accepted rem d"
  shows "\<exists>x. details (fst (process_order cfg rem d order (res, s))) = details res @ [x]
      \<and> detail_order_id x = order_id order
      \<and> n_success (fst (process_order cfg rem d order (res, s)))
          + n_failed (fst (process_order cfg rem d order (res, s)))
          + n_skipped (fst (process_order cfg rem d order (res, s)))
        = n_success res + n_failed res + n_skipped res + 1
      \<and> n_total (fst (process_order cfg rem d order (res, s))) = n_total res"
proof (cases "no_phone (get_or (phone order) [])")
  case True
  then show ?thesis by (simp add: process_order_skip)
next
  case False
  show ?thesis
  proof (rule gateway_call_cases [of cfg rem order s])
    fix e s1 assume "gateway_call cfg rem order s = (Inl e, s1)"
    with False show ?thesis
      by (simp add: process_order_raised error_record_def)
  next
    fix code resp s1 assume "gateway_call cfg rem order s = (Inr (code, resp), s1)"
    with False assms show ?thesis
      by (auto simp: process_order_returned answered_record_def pause_accepted_def Let_def)
  qed
qed

lemma for_orders_invariant:
  assumes "\<not> gt_zero d \<or> pause_accepted rem d"
  shows "map detail_order_id (details (fst (for_orders cfg rem d orders (res, s))))
        = map detail_order_id (details res) @ map order_id orders
      \<and> n_success (fst (for_orders cfg rem d orders (res, s)))
          + n_failed (fst (for_orders cfg rem d orders (res, s)))
          + n_skipped (fst (for_orders cfg rem d orders (res, s)))
        = n_success res + n_failed res + n_skipped res + length orders
      \<and> n_total (fst (for_orders cfg rem d orders (res, s))) = n_total res"
proof (induction orders arbitrary: res s)
  case Nil
  then show ?case by simp
next
  case (Cons order orders)
  obtain res1 s1 where p: "process_order cfg rem d order (res, s) = (res1, s1)"
    by (cases "process_order cfg rem d order (res, s)")
  from process_order_one_record [OF assms, of cfg order res s] p
  obtain x where x: "details res1 = details res @ [x]" "detail_order_id x = order_id order"
    "n_success res1 + n_failed res1 + n_skipped res1 = n_success res + n_failed res + n_skipped res + 1"
    "n_total res1 = n_total res"
    by auto
  from Cons.IH [of res1 s1] p x show ?case by simp
qed

text \<open>
  With a delay the pause accepts (or no pause at all), the counts of a batch add up to the
  total, which is the number of orders, and the details hold one record per order, in order.
\<close>

lemma send_batch_invariant:
  assumes "\<not> gt_zero d \<or> pause_accepted rem d"
  shows "n_total (fst (send_batch_whatsapp_messages cfg rem orders d s)) = length orders
      \<and> n_success (fst (send_batch_whatsapp_messages cfg rem orders d s))
          + n_failed (fst (send_batch_whatsapp_messages cfg rem orders d s))
          + n_skipped (fst (send_batch_whatsapp_messages cfg rem orders d s))
        = length orders
      \<and> length (details (fst (send_batch_whatsapp_messages cfg rem orders d s))) = length orders
      \<and> map detail_order_id (details (fst (send_batch_whatsapp_messages cfg rem orders d s)))
        = map order_id orders"
proof -
  from for_orders_invariant [OF assms, of cfg orders "initial_results orders" s]
  have inv: "map detail_order_id (details (fst (send_batch_whatsapp_messages cfg rem orders d s)))
        = map order_id orders"
    "n_success (fst (send_batch_whatsapp_messages cfg rem orders d s))
          + n_failed (fst (send_batch_whatsapp_messages cfg rem orders d s))
          + n_skipped (fst (send_batch_whatsapp_messages cfg rem orders d s))
        = length orders"
    "n_total (fst (send_batch_whatsapp_messages cfg rem orders d s)) = length orders"
    by (simp_all add: send_batch_whatsapp_messages_def initial_results_def)
  from inv(1) have "length (details (fst (send_batch_whatsapp_messages cfg rem orders d s)))
      = length orders"
    by (metis length_map)
  with inv show ?thesis by simp
qed

text \<open>
  Claim C1, at an input where it fails. One order with a usable phone, a gateway that
  answers 200 and a delay beyond the range of the clock (infinite, or ten thousand million
  seconds): the success is recorded, the pause then raises inside the same \<open>try\<close>
  block, and the handler records the order a second time as an error. The counts add up
  to two for a total of one, and the details hold two records.
\<close>

theorem send_batch_counts_order_twice:
  "fst (send_batch_whatsapp_messages sample_config (answering 200 ''{}'') [sample_order] PosInf idle)
     = \<lparr> n_total = 1, n_success = 1, n_failed = 1, n_skipped = 0,
         details =
           [Success ''178541'' ''+917588348865'' ''Jane Doe'' 200,
            Error ''178541'' ''+917588348865'' ''Jane Doe''
              ''timestamp out of range for platform time_t''] \<rparr>
   \<and> fst (send_batch_whatsapp_messages sample_config (answering 200 ''{}'') [sample_order]
          (Finite 10000000000) idle)
     = \<lparr> n_total = 1, n_success = 1, n_failed = 1, n_skipped = 0,
         details =
           [Success ''178541'' ''+917588348865'' ''Jane Doe'' 200,
            Error ''178541'' ''+917588348865'' ''Jane Doe''
              ''timestamp out of range for platform time_t''] \<rparr>"
  by (simp add: send_batch_whatsapp_messages_def initial_results_def process_order_def
      try_send_def interakt_send_order_status_def http_post_def time_sleep_def
      sample_config_def sample_order_def answering_def idle_def no_phone_def get_or_def
      strip_def isspace_def truthy_def response_data_def Let_def)

section \<open>Batch sender: missing credential\<close>

lemma send_without_key:
  "\<not> truthy (INTERAKT_API_KEY cfg)
   \<Longrightarrow> interakt_send_order_status cfg rem order_data ph s = (Inl missing_key, s)"
  by (simp add: interakt_send_order_status_def missing_key_def)

lemma process_order_without_key:
  assumes "\<not> truthy (INTERAKT_API_KEY cfg)"
  shows "snd (process_order cfg rem d order (res, s)) = s
      \<and> (\<exists>x. details (fst (process_order cfg rem d order (res, s))) = details res @ [x]
             \<and> status_tag x = skipped_or_error order)"
proof (cases "no_phone (get_or (phone order) [])")
  case True
  then show ?thesis by (simp add: process_order_skip skipped_or_error_def)
next
  case False
  from send_without_key [OF assms]
  have "gateway_call cfg rem order s = (Inl missing_key, s)"
    by (simp add: gateway_call_def)
  with False show ?thesis
    by (simp add: process_order_raised error_record_def skipped_or_error_def)
qed

lemma for_orders_without_key:
  assumes "\<not> truthy (INTERAKT_API_KEY cfg)"
  shows "snd (for_orders cfg rem d orders (res, s)) = s
      \<and> map status_tag (details (fst (for_orders cfg rem d orders (res, s))))
          = map status_tag (details res) @ map skipped_or_error orders"
proof (induction orders arbitrary: res)
  case Nil
  then show ?case by simp
next
  case (Cons order orders)
  obtain res1 s1 where p: "process_order cfg rem d order (res, s) = (res1, s1)"
    by (cases "process_order cfg rem d order (res, s)")
  from process_order_without_key [OF assms, of rem d order res s] p
  obtain x where x: "s1 = s" "details res1 = details res @ [x]" "status_tag x = skipped_or_error order"
    by auto
  from Cons.IH [of res1] p x show ?case by simp
qed

text \<open>
  With the credential missing, a batch of two orders returns normally: the fault was
  caught at the first order, recorded for it, and the second order was processed too.
\<close>

theorem send_batch_catches_missing_credential:
  "fst (send_batch_whatsapp_messages (sample_config \<lparr> INTERAKT_API_KEY := None \<rparr>)
          (answering 200 ''{}'') [sample_order, sample_order \<lparr> order_id := ''178542'' \<rparr>]
          (Finite 1) idle)
     = \<lparr> n_total = 2, n_success = 0, n_failed = 2, n_skipped = 0,
         details =
           [Error ''178541'' ''+917588348865'' ''Jane Doe'' ''INTERAKT_API_KEY not set in .env'',
            Error ''178542'' ''+917588348865'' ''Jane Doe'' ''INTERAKT_API_KEY not set in .env''] \<rparr>"
  by (simp add: send_batch_whatsapp_messages_def initial_results_def process_order_def
      try_send_def interakt_send_order_status_def
      sample_config_def sample_order_def idle_def no_phone_def get_or_def
      strip_def isspace_def truthy_def Let_def)

text \<open>
  Claim C6, as amended. With the credential missing or empty, the gateway send operation
  raises at once, before anything is sent. In a batch run the fault is caught like any
  other exception: each order with a usable phone gets an error record counted under
  failed, the run goes on to the end, and nothing is ever sent.
\<close>

theorem missing_credential_recorded_per_item:
  assumes "\<not> truthy (INTERAKT_API_KEY cfg)"
  shows "interakt_send_order_status cfg rem order_data ph s = (Inl missing_key, s)
      \<and> (\<not> no_phone (get_or (phone order) [])
          \<longrightarrow> process_order cfg rem d order (res, s)
              = (res \<lparr> n_failed := n_failed res + 1,
                        details := details res
                          @ [Error (order_id order) (get_or (phone order) []) (customer_name order)
                               ''INTERAKT_API_KEY not set in .env''] \<rparr>, s))
      \<and> snd (send_batch_whatsapp_messages cfg rem orders d s) = s
      \<and> map status_tag (details (fst (send_batch_whatsapp_messages cfg rem orders d s)))
          = map skipped_or_error orders"
proof -
  have send: "interakt_send_order_status cfg rem order_data ph s = (Inl missing_key, s)"
    using assms by (rule send_without_key)
  have "gateway_call cfg rem order s = (Inl missing_key, s)"
    using send_without_key [OF assms] by (simp add: gateway_call_def)
  then have item: "\<not> no_phone (get_or (phone order) [])
          \<longrightarrow> process_order cfg rem d order (res, s)
              = (res \<lparr> n_failed := n_failed res + 1,
                        details := details res
                          @ [Error (order_id order) (get_or (phone order) []) (customer_name order)
                               ''INTERAKT_API_KEY not set in .env''] \<rparr>, s)"
    by (simp add: process_order_raised error_record_def missing_key_def)
  from for_orders_without_key [OF assms, of rem d orders "initial_results orders" s]
  have batch: "snd (send_batch_whatsapp_messages cfg rem orders d s) = s"
    "map status_tag (details (fst (send_batch_whatsapp_messages cfg rem orders d s)))
          = map skipped_or_error orders"
    by (simp_all add: send_batch_whatsapp_messages_def initial_results_def)
  from send item batch show ?thesis by simp
qed

theorem missing_credential_witness:
  "\<not> truthy (INTERAKT_API_KEY (sample_config \<lparr> INTERAKT_API_KEY := Some [] \<rparr>))
   \<and> interakt_send_order_status (sample_config \<lparr> INTERAKT_API_KEY := Some [] \<rparr>)
        (answering 200 ''{}'') sample_order ''+917588348865'' idle
       = (Inl (Exn ''RuntimeError'' ''INTERAKT_API_KEY not set in .env''), idle)
   \<and> \<not> no_phone (get_or (phone sample_order) [])
   \<and> fst (process_order (sample_config \<lparr> INTERAKT_API_KEY := Some [] \<rparr>) (answering 200 ''{}'')
        (Finite 1) sample_order (initial_results [sample_order], idle))
       = \<lparr> n_total = 1, n_success = 0, n_failed = 1, n_skipped = 0,
           details = [Error ''178541'' ''+917588348865'' ''Jane Doe''
                        ''INTERAKT_API_KEY not set in .env''] \<rparr>
   \<and> snd (send_batch_whatsapp_messages (sample_config \<lparr> INTERAKT_API_KEY := Some [] \<rparr>)
        (answering 200 ''{}'') [sample_order \<lparr> phone := None \<rparr>, sample_order] (Finite 1) idle)
       = idle
   \<and> map status_tag (details (fst (send_batch_whatsapp_messages
        (sample_config \<lparr> INTERAKT_API_KEY := Some [] \<rparr>)
        (answering 200 ''{}'') [sample_order \<lparr> phone := None \<rparr>, sample_order] (Finite 1) idle)))
       = [''skipped'', ''error'']"
proof -
  let ?cfg = "sample_config \<lparr> INTERAKT_API_KEY := Some [] \<rparr>"
  let ?rem = "answering 200 ''{}''"
  let ?res = "initial_results [sample_order]"
  have k: "\<not> truthy (INTERAKT_API_KEY ?cfg)"
    by (simp add: truthy_def)
  have hp: "\<not> no_phone (get_or (phone sample_order) [])"
    by (simp add: no_phone_def get_or_def sample_order_def strip_def isspace_def)
  have np: "no_phone (get_or (phone (sample_order \<lparr> phone := None \<rparr>)) [])"
    by (simp add: no_phone_def get_or_def)
  have res: "?res = \<lparr> n_total = 1, n_success = 0, n_failed = 0, n_skipped = 0, details = [] \<rparr>"
    by (simp add: initial_results_def)
  have so: "order_id sample_order = ''178541''" "customer_name sample_order = ''Jane Doe''"
    "get_or (phone sample_order) [] = ''+917588348865''"
    by (simp_all add: sample_order_def get_or_def)
  note inst = missing_credential_recorded_per_item [OF k, where rem = ?rem and d = "Finite 1"
      and s = idle]
  have w1: "interakt_send_order_status ?cfg ?rem sample_order ''+917588348865'' idle
       = (Inl (Exn ''RuntimeError'' ''INTERAKT_API_KEY not set in .env''), idle)"
    using inst [where order_data = sample_order and ph = "''+917588348865''"]
    by (simp add: missing_key_def)
  have w2: "fst (process_order ?cfg ?rem (Finite 1) sample_order (?res, idle))
       = \<lparr> n_total = 1, n_success = 0, n_failed = 1, n_skipped = 0,
           details = [Error ''178541'' ''+917588348865'' ''Jane Doe''
                        ''INTERAKT_API_KEY not set in .env''] \<rparr>"
    using inst [where order = sample_order and res = ?res] hp
    by (simp add: res so)
  have w3: "snd (send_batch_whatsapp_messages ?cfg ?rem
        [sample_order \<lparr> phone := None \<rparr>, sample_order] (Finite 1) idle) = idle"
    using inst [where orders = "[sample_order \<lparr> phone := None \<rparr>, sample_order]"]
    by simp
  have w4: "map status_tag (details (fst (send_batch_whatsapp_messages ?cfg ?rem
        [sample_order \<lparr> phone := None \<rparr>, sample_order] (Finite 1) idle)))
       = [''skipped'', ''error'']"
    using inst [where orders = "[sample_order \<lparr> phone := None \<rparr>, sample_order]"] hp np
    by (simp add: skipped_or_error_def)
  from k w1 hp w2 w3 w4 show ?thesis by (simp only: simp_thms)
qed

section \<open>Batch sender: pacing\<close>

lemma gateway_call_pauses:
  "filter is_pause (trace (snd (gateway_call cfg rem order s))) = filter is_pause (trace s)"
  by (simp add: gateway_call_def interakt_send_order_status_def http_post_def
      split: prod.splits sum.splits)

lemma process_order_pause:
  assumes "gt_zero d" and "pause_accepted rem d"
  shows "(no_phone (get_or (phone order) []) \<longrightarrow> snd (process_order cfg rem d order (res, s)) = s)
      \<and> (\<not> no_phone (get_or (phone order) [])
            \<and> gateway_call cfg rem order s = (Inr (code, resp), s1)
          \<longrightarrow> snd (process_order cfg rem d order (res, s)) = s1 \<lparr> trace := trace s1 @ [Sleep d] \<rparr>)
      \<and> (\<not> no_phone (get_or (phone order) []) \<and> gateway_call cfg rem order s = (Inl e, s1)
          \<longrightarrow> snd (process_order cfg rem d order (res, s)) = s1)"
  using assms
  by (auto simp: process_order_skip process_order_raised process_order_returned
      pause_accepted_def Let_def)

lemma process_order_pause_count:
  assumes "gt_zero d" and "pause_accepted rem d"
  shows "length (filter is_pause (trace (snd (process_order cfg rem d order (res, s)))))
          + length (filter answered (details res))
        = length (filter is_pause (trace s))
          + length (filter answered (details (fst (process_order cfg rem d order (res, s)))))"
proof (cases "no_phone (get_or (phone order) [])")
  case True
  then show ?thesis by (simp add: process_order_skip)
next
  case False
  show ?thesis
  proof (rule gateway_call_cases [of cfg rem order s])
    fix e s1 assume g: "gateway_call cfg rem order s = (Inl e, s1)"
    from gateway_call_pauses [of cfg rem order s] g
    have "filter is_pause (trace s1) = filter is_pause (trace s)" by simp
    with False g show ?thesis
      by (simp add: process_order_raised error_record_def)
  next
    fix code resp s1 assume g: "gateway_call cfg rem order s = (Inr (code, resp), s1)"
    from gateway_call_pauses [of cfg rem order s] g
    have "filter is_pause (trace s1) = filter is_pause (trace s)" by simp
    with False g assms show ?thesis
      by (simp add: process_order_returned answered_record_def pause_accepted_def Let_def)
  qed
qed

lemma for_orders_pause_count:
  assumes "gt_zero d" and "pause_accepted rem d"
  shows "length (filter is_pause (trace (snd (for_orders cfg rem d orders (res, s)))))
          + length (filter answered (details res))
        = length (filter is_pause (trace s))
          + length (filter answered (details (fst (for_orders cfg rem d orders (res, s)))))"
proof (induction orders arbitrary: res s)
  case Nil
  then show ?case by simp
next
  case (Cons order orders)
  obtain res1 s1 where p: "process_order cfg rem d order (res, s) = (res1, s1)"
    by (cases "process_order cfg rem d order (res, s)")
  from process_order_pause_count [OF assms, of cfg order res s] p
  have one: "length (filter is_pause (trace s1)) + length (filter answered (details res))
        = length (filter is_pause (trace s)) + length (filter answered (details res1))"
    by simp
  from Cons.IH [of res1 s1] one p show ?case by simp
qed

text \<open>
  A batch of one order that the gateway answers ends with a pause: there is a delay after
  the final order. A batch whose gateway calls raise has no pause at all: there is none
  after an attempt that raised.
\<close>

theorem send_batch_pauses_after_final_order:
  "last (trace (snd (send_batch_whatsapp_messages sample_config (answering 200 ''{}'')
          [sample_order] (Finite 1) idle))) = Sleep (Finite 1)
   \<and> filter is_pause (trace (snd (send_batch_whatsapp_messages sample_config timing_out
          [sample_order, sample_order \<lparr> order_id := ''178542'' \<rparr>] (Finite 1) idle))) = []"
  by (simp add: send_batch_whatsapp_messages_def initial_results_def process_order_def
      try_send_def interakt_send_order_status_def http_post_def time_sleep_def
      sample_config_def sample_order_def answering_def timing_out_def idle_def no_phone_def
      get_or_def strip_def isspace_def truthy_def response_data_def Let_def)

text \<open>
  Claim C7, as amended. In a batch run with a positive delay that the pause accepts, the
  sender pauses for that delay right after every attempt whose gateway call returned a
  status, the attempt for the final order included; it does not pause after a skipped item
  or after an attempt whose call raised. So a run has as many pauses as answered attempts.
\<close>

theorem pause_after_answered_attempts:
  assumes "gt_zero d" and "pause_accepted rem d"
  shows "(no_phone (get_or (phone order) []) \<longrightarrow> snd (process_order cfg rem d order (res, s)) = s)
      \<and> (\<not> no_phone (get_or (phone order) [])
            \<and> gateway_call cfg rem order s = (Inr (code, resp), s1)
          \<longrightarrow> snd (process_order cfg rem d order (res, s)) = s1 \<lparr> trace := trace s1 @ [Sleep d] \<rparr>)
      \<and> (\<not> no_phone (get_or (phone order) []) \<and> gateway_call cfg rem order s = (Inl e, s1)
          \<longrightarrow> snd (process_order cfg rem d order (res, s)) = s1)
      \<and> (\<not> no_phone (get_or (phone order) [])
            \<and> gateway_call cfg rem order
                (snd (for_orders cfg rem d orders (initial_results (orders @ [order]), s)))
              = (Inr (code, resp), s1)
          \<longrightarrow> trace (snd (send_batch_whatsapp_messages cfg rem (orders @ [order]) d s))
              = trace s1 @ [Sleep d])
      \<and> length (filter is_pause (trace (snd (send_batch_whatsapp_messages cfg rem orders d s))))
          = length (filter is_pause (trace s))
            + length (filter answered (details (fst (send_batch_whatsapp_messages cfg rem orders d s))))"
proof -
  note item = process_order_pause [OF assms]
  have final: "\<not> no_phone (get_or (phone order) [])
            \<and> gateway_call cfg rem order
                (snd (for_orders cfg rem d orders (initial_results (orders @ [order]), s)))
              = (Inr (code, resp), s1)
          \<longrightarrow> trace (snd (send_batch_whatsapp_messages cfg rem (orders @ [order]) d s))
              = trace s1 @ [Sleep d]"
  proof
    assume h: "\<not> no_phone (get_or (phone order) [])
            \<and> gateway_call cfg rem order
                (snd (for_orders cfg rem d orders (initial_results (orders @ [order]), s)))
              = (Inr (code, resp), s1)"
    obtain res0 s0 where f: "for_orders cfg rem d orders (initial_results (orders @ [order]), s)
        = (res0, s0)"
      by (cases "for_orders cfg rem d orders (initial_results (orders @ [order]), s)")
    from item [of order cfg res0 s0 code resp s1] h f
    have "snd (process_order cfg rem d order (res0, s0)) = s1 \<lparr> trace := trace s1 @ [Sleep d] \<rparr>"
      by simp
    with f show "trace (snd (send_batch_whatsapp_messages cfg rem (orders @ [order]) d s))
        = trace s1 @ [Sleep d]"
      by (simp add: send_batch_whatsapp_messages_def for_orders_snoc)
  qed
  from for_orders_pause_count [OF assms, of cfg orders "initial_results orders" s]
  have count: "length (filter is_pause (trace (snd (send_batch_whatsapp_messages cfg rem orders d s))))
          = length (filter is_pause (trace s))
            + length (filter answered (details (fst (send_batch_whatsapp_messages cfg rem orders d s))))"
    by (simp add: send_batch_whatsapp_messages_def initial_results_def)
  from item [of order cfg res s code resp s1 e] final count show ?thesis by blast
qed

theorem pause_after_answered_attempts_witness:
  "gt_zero (Finite 1) \<and> pause_accepted (answering 200 ''{}'') (Finite 1)
   \<and> no_phone (get_or (phone (sample_order \<lparr> phone := Some '' 123 '' \<rparr>)) [])
   \<and> snd (process_order sample_config (answering 200 ''{}'') (Finite 1)
        (sample_order \<lparr> phone := Some '' 123 '' \<rparr>) (initial_results [sample_order], idle)) = idle
   \<and> \<not> no_phone (get_or (phone sample_order) [])
   \<and> fst (gateway_call sample_config (answering 200 ''{}'') sample_order idle) = Inr (200, Json ''{}'')
   \<and> trace (snd (process_order sample_config (answering 200 ''{}'') (Finite 1) sample_order
        (initial_results [sample_order], idle)))
       = trace (snd (gateway_call sample_config (answering 200 ''{}'') sample_order idle))
         @ [Sleep (Finite 1)]
   \<and> trace (snd (send_batch_whatsapp_messages sample_config (answering 200 ''{}'')
        ([] @ [sample_order]) (Finite 1) idle))
       = trace (snd (gateway_call sample_config (answering 200 ''{}'') sample_order idle))
         @ [Sleep (Finite 1)]
   \<and> pause_accepted timing_out (Finite 1)
   \<and> fst (gateway_call sample_config timing_out sample_order idle)
       = Inl (Exn ''ConnectTimeout'' ''connection timed out'')
   \<and> snd (process_order sample_config timing_out (Finite 1) sample_order
        (initial_results [sample_order], idle))
       = snd (gateway_call sample_config timing_out sample_order idle)
   \<and> length (filter is_pause (trace (snd (send_batch_whatsapp_messages sample_config
        (answering 200 ''{}'') [sample_order \<lparr> phone := Some '' 123 '' \<rparr>, sample_order]
        (Finite 1) idle))))
       = length (filter answered (details (fst (send_batch_whatsapp_messages sample_config
        (answering 200 ''{}'') [sample_order \<lparr> phone := Some '' 123 '' \<rparr>, sample_order]
        (Finite 1) idle))))"
proof -
  let ?short = "sample_order \<lparr> phone := Some '' 123 '' \<rparr>"
  let ?res = "initial_results [sample_order]"
  let ?rem = "answering 200 ''{}''"
  let ?s1 = "snd (gateway_call sample_config ?rem sample_order idle)"
  let ?t1 = "snd (gateway_call sample_config timing_out sample_order idle)"
  have gz: "gt_zero (Finite 1)" by simp
  have pa: "pause_accepted ?rem (Finite 1)"
    by (simp add: pause_accepted_def answering_def)
  have pt: "pause_accepted timing_out (Finite 1)"
    by (simp add: pause_accepted_def timing_out_def)
  have np: "no_phone (get_or (phone ?short) [])"
    by (simp add: no_phone_def get_or_def sample_order_def strip_def isspace_def)
  have hp: "\<not> no_phone (get_or (phone sample_order) [])"
    by (simp add: no_phone_def get_or_def sample_order_def strip_def isspace_def)
  have g200: "fst (gateway_call sample_config ?rem sample_order idle) = Inr (200, Json ''{}'')"
    by (simp add: gateway_call_def interakt_send_order_status_def http_post_def answering_def
        sample_config_def truthy_def response_data_def)
  then have c200: "gateway_call sample_config ?rem sample_order idle = (Inr (200, Json ''{}''), ?s1)"
    by (metis prod.collapse)
  have gto: "fst (gateway_call sample_config timing_out sample_order idle)
      = Inl (Exn ''ConnectTimeout'' ''connection timed out'')"
    by (simp add: gateway_call_def interakt_send_order_status_def http_post_def timing_out_def
        sample_config_def truthy_def)
  then have cto: "gateway_call sample_config timing_out sample_order idle
      = (Inl (Exn ''ConnectTimeout'' ''connection timed out''), ?t1)"
    by (metis prod.collapse)
  note inst = pause_after_answered_attempts [OF gz pa, where cfg = sample_config and s = idle]
  note inst_t = pause_after_answered_attempts [OF gz pt, where cfg = sample_config and s = idle]
  have w1: "snd (process_order sample_config ?rem (Finite 1) ?short (?res, idle)) = idle"
    using inst [where order = ?short and res = ?res] np by blast
  have w2: "trace (snd (process_order sample_config ?rem (Finite 1) sample_order (?res, idle)))
       = trace ?s1 @ [Sleep (Finite 1)]"
  proof -
    from inst [where order = sample_order and res = ?res and code = 200 and resp = "Json ''{}''"
        and ?s1.0 = ?s1] hp c200
    have "snd (process_order sample_config ?rem (Finite 1) sample_order (?res, idle))
        = ?s1 \<lparr> trace := trace ?s1 @ [Sleep (Finite 1)] \<rparr>"
      by blast
    then show ?thesis by simp
  qed
  have w3: "trace (snd (send_batch_whatsapp_messages sample_config ?rem ([] @ [sample_order])
        (Finite 1) idle)) = trace ?s1 @ [Sleep (Finite 1)]"
  proof -
    have "gateway_call sample_config ?rem sample_order
        (snd (for_orders sample_config ?rem (Finite 1) [] (initial_results ([] @ [sample_order]), idle)))
        = (Inr (200, Json ''{}''), ?s1)"
      using c200 by simp
    with inst [where order = sample_order and orders = "[]" and code = 200 and resp = "Json ''{}''"
        and ?s1.0 = ?s1] hp
    show ?thesis by blast
  qed
  have w4: "snd (process_order sample_config timing_out (Finite 1) sample_order (?res, idle)) = ?t1"
    using inst_t [where order = sample_order and res = ?res
        and e = "Exn ''ConnectTimeout'' ''connection timed out''" and ?s1.0 = ?t1] hp cto
    by blast
  have w5: "length (filter is_pause (trace (snd (send_batch_whatsapp_messages sample_config ?rem
        [?short, sample_order] (Finite 1) idle))))
       = length (filter answered (details (fst (send_batch_whatsapp_messages sample_config ?rem
        [?short, sample_order] (Finite 1) idle))))"
    using inst [where orders = "[?short, sample_order]"]
    by (simp add: idle_def)
  from gz pa np w1 hp g200 w2 w3 pt gto w4 w5 show ?thesis by (simp only: simp_thms)
qed

end
